theory Spec2Isabelle
  imports Main "HOL-Library.AList" "HOL-Library.State_Monad"
begin

section \<open>Nodes\<close>

text \<open>
  The two packs of \<^verbatim>\<open>llama_hub/llama_packs\<close> wire objects of the retrieval framework
  together. A text node (a document is a text node too) has an identifier (the field
  \<^verbatim>\<open>id_\<close>, which the property \<^verbatim>\<open>node_id\<close> reads: \<open>node_id\<close> here), a text (the field
  \<^verbatim>\<open>text\<close>: \<open>node_text\<close> here) and metadata.
\<close>

record text_node =
  node_id :: string
  node_text :: string
  metadata :: "(string \<times> string) list"

text \<open>
  Modelled from the spec: the class \<^verbatim>\<open>IndexNode\<close> of the framework and its constructor
  \<^verbatim>\<open>IndexNode.from_text_node(node, index_id)\<close>, which are imported by the pack and not part
  of the repository. The data model of the spec has it as "a TextChunk augmented with a
  reference identifier pointing to another node": every field of the text node is kept and
  the reference is added.
\<close>

record index_node = text_node +
  index_id :: string

definition from_text_node :: "text_node \<Rightarrow> string \<Rightarrow> index_node" where
  "from_text_node node ref_id =
     \<lparr>node_id = node_id node, node_text = node_text node, metadata = metadata node, index_id = ref_id\<rparr>"

section \<open>Formatting an index\<close>

text \<open>The f-string \<^verbatim>\<open>f"node-{idx}"\<close> prints the index in decimal, without leading zeros.\<close>

definition digit_char :: "nat \<Rightarrow> char" where
  "digit_char d = ''0123456789'' ! d"

fun string_of_nat :: "nat \<Rightarrow> string" where
  "string_of_nat n =
     (if n < 10 then [digit_char n]
      else string_of_nat (n div 10) @ [digit_char (n mod 10)])"

definition node_name :: "nat \<Rightarrow> string" where
  "node_name idx = ''node-'' @ string_of_nat idx"

section \<open>Objects of the framework\<close>

text \<open>
  A splitter is its configuration; its method \<^verbatim>\<open>get_nodes_from_documents\<close> is code of the
  framework and is a parameter of the model.
\<close>

datatype sentence_splitter = SentenceSplitter int

type_synonym splitting = "sentence_splitter \<Rightarrow> text_node list \<Rightarrow> text_node list"

text \<open>
  Every other object that a constructor of a pack creates is allocated in a store of
  objects, and is referred to by its address; an object is the arguments it was created
  from. \<^verbatim>\<open>index.docstore\<close> is the store of chunks that belongs to the index at an
  address.
\<close>

type_synonym ref = nat

datatype docstore = DocstoreOf ref

datatype 'n obj =
    EmbedModel string
  | OpenAI string
  | ServiceContext "int option" "ref option" "ref option"
  | VectorStoreIndex "'n list" ref
  | VectorIndexRetriever ref int
  | BM25Retriever docstore int
  | QueryFusionRetriever "ref list" int int string bool bool
  | RecursiveRetriever string "(string \<times> ref) list" "(string \<times> 'n) list" bool
  | RetrieverQueryEngine ref "ref option"

type_synonym 'n heap = "'n obj list"

definition deref :: "'n heap \<Rightarrow> ref \<Rightarrow> 'n obj option" where
  "deref h r = (if r < length h then Some (h ! r) else None)"

text \<open>
  A constructor of the framework may refuse its arguments and raise; the constructor of the
  pack that called it then ends with that exception, and the objects made so far remain.
  Which arguments the framework refuses is code of the framework: it is a parameter of the
  model, asked with the objects that exist and the constructor call that is made.
\<close>

datatype exception = ValueError | ZeroDivisionError | FrameworkError string

datatype 'n construction = New_splitter int | New_object "'n obj"

type_synonym 'n refusal = "'n heap \<Rightarrow> 'n construction \<Rightarrow> exception option"

type_synonym ('n, 'a) constructing = "'n heap \<Rightarrow> (exception + 'a) \<times> 'n heap"

definition returning :: "'a \<Rightarrow> ('n, 'a) constructing" where
  "returning x h = (Inr x, h)"

definition and_then ::
  "('n, 'a) constructing \<Rightarrow> ('a \<Rightarrow> ('n, 'b) constructing) \<Rightarrow> ('n, 'b) constructing" where
  "and_then m f h = (case m h of (Inl e, h') \<Rightarrow> (Inl e, h') | (Inr x, h') \<Rightarrow> f x h')"

definition new :: "'n refusal \<Rightarrow> 'n obj \<Rightarrow> ('n, ref) constructing" where
  "new check ob h =
     (case check h (New_object ob) of
        Some e \<Rightarrow> (Inl e, h)
      | None \<Rightarrow> (Inr (length h), h @ [ob]))"

definition new_splitter :: "'n refusal \<Rightarrow> int \<Rightarrow> ('n, sentence_splitter) constructing" where
  "new_splitter check c h =
     (case check h (New_splitter c) of
        Some e \<Rightarrow> (Inl e, h)
      | None \<Rightarrow> (Inr (SentenceSplitter c), h))"

text \<open>\<^verbatim>\<open>[SentenceSplitter(chunk_size=c) for c in sizes]\<close>, which ends at the first refusal.\<close>

fun new_splitters :: "'n refusal \<Rightarrow> int list \<Rightarrow> ('n, sentence_splitter list) constructing" where
  "new_splitters check [] = returning []"
| "new_splitters check (c # cs) =
     and_then (new_splitter check c) (\<lambda>n.
     and_then (new_splitters check cs) (\<lambda>ns.
     returning (n # ns)))"

section \<open>RecursiveRetrieverSmallToBigPack\<close>

record pack_B =
  node_parser :: sentence_splitter
  embed_model :: ref
  llm :: ref
  service_context :: ref
  vector_index_chunk :: ref
  recursive_retriever :: ref
  query_engine :: ref

text \<open>
  \<^verbatim>\<open>for idx, node in enumerate(base_nodes): node.id_ = f"node-{idx}"\<close>
\<close>

definition set_node_ids :: "text_node list \<Rightarrow> text_node list" where
  "set_node_ids base_nodes =
     map (\<lambda>(idx, node). node\<lparr>node_id := node_name idx\<rparr>) (enumerate 0 base_nodes)"

text \<open>The value of \<^verbatim>\<open>base_nodes\<close> when that loop is over.\<close>

definition base_nodes_of :: "splitting \<Rightarrow> text_node list \<Rightarrow> text_node list" where
  "base_nodes_of parse docs = set_node_ids (parse (SentenceSplitter 1024) docs)"

definition sub_chunk_sizes :: "int list" where
  "sub_chunk_sizes = [128, 256, 512]"

text \<open>
  The two nested loops that fill \<^verbatim>\<open>all_nodes\<close>: for every base node, the sub-nodes of
  every sub-parser, wrapped with the base node's identifier, and then the base node itself,
  wrapped with its own identifier.
\<close>

definition add_sub_nodes ::
  "splitting \<Rightarrow> text_node \<Rightarrow> index_node list \<Rightarrow> sentence_splitter \<Rightarrow> index_node list" where
  "add_sub_nodes parse base_node all_nodes n =
     (let sub_nodes = parse n [base_node];
          sub_inodes = map (\<lambda>sn. from_text_node sn (node_id base_node)) sub_nodes
      in all_nodes @ sub_inodes)"

definition add_base_node ::
  "splitting \<Rightarrow> sentence_splitter list \<Rightarrow> index_node list \<Rightarrow> text_node \<Rightarrow> index_node list" where
  "add_base_node parse sub_node_parsers all_nodes base_node =
     (let all_nodes' = foldl (add_sub_nodes parse base_node) all_nodes sub_node_parsers;
          original_node = from_text_node base_node (node_id base_node)
      in all_nodes' @ [original_node])"

definition build_all_nodes ::
  "splitting \<Rightarrow> sentence_splitter list \<Rightarrow> text_node list \<Rightarrow> index_node list" where
  "build_all_nodes parse sub_node_parsers base_nodes =
     foldl (add_base_node parse sub_node_parsers) [] base_nodes"

text \<open>
  \<^verbatim>\<open>{n.node_id: n for n in all_nodes}\<close>: a later node replaces an earlier one with the same
  identifier, at the place of the earlier one.
\<close>

definition build_nodes_dict :: "index_node list \<Rightarrow> (string \<times> index_node) list" where
  "build_nodes_dict all_nodes = foldl (\<lambda>d n. AList.update (node_id n) n d) [] all_nodes"

text \<open>
  The constructor. Its keyword arguments are not read. The identifiers of the base nodes
  are set before anything else is made of them. Every object of the framework is made in
  the order of the source, so that a refusal ends the constructor where the source would
  raise.
\<close>

definition init_B ::
  "index_node refusal \<Rightarrow> splitting \<Rightarrow> text_node list \<Rightarrow> (index_node, pack_B) constructing" where
  "init_B check parse docs =
     and_then (new_splitter check 1024) (\<lambda>node_parser.
     let base_nodes = set_node_ids (parse node_parser docs) in
     and_then (new check (EmbedModel ''local:BAAI/bge-small-en'')) (\<lambda>embed_model.
     and_then (new check (OpenAI ''gpt-3.5-turbo'')) (\<lambda>llm.
     and_then (new check (ServiceContext None (Some llm) (Some embed_model))) (\<lambda>service_context.
     and_then (new_splitters check sub_chunk_sizes) (\<lambda>sub_node_parsers.
     let all_nodes = build_all_nodes parse sub_node_parsers base_nodes;
         all_nodes_dict = build_nodes_dict all_nodes in
     and_then (new check (VectorStoreIndex all_nodes service_context)) (\<lambda>vector_index_chunk.
     and_then (new check (VectorIndexRetriever vector_index_chunk 2)) (\<lambda>vector_retriever_chunk.
     and_then (new check (RecursiveRetriever ''vector''
        [(''vector'', vector_retriever_chunk)] all_nodes_dict True)) (\<lambda>recursive_retriever.
     and_then (new check (RetrieverQueryEngine recursive_retriever (Some service_context)))
       (\<lambda>query_engine.
     returning \<lparr>node_parser = node_parser, embed_model = embed_model, llm = llm,
       service_context = service_context, vector_index_chunk = vector_index_chunk,
       recursive_retriever = recursive_retriever, query_engine = query_engine\<rparr>)))))))))"

text \<open>
  The policy of the pack in the words of the spec: what one parent chunk contributes to the
  flat index, and the flat index of a list of parent chunks.
\<close>

definition family :: "splitting \<Rightarrow> text_node \<Rightarrow> index_node list" where
  "family parse parent =
     map (\<lambda>child. from_text_node child (node_id parent)) (parse (SentenceSplitter 128) [parent])
     @ map (\<lambda>child. from_text_node child (node_id parent)) (parse (SentenceSplitter 256) [parent])
     @ map (\<lambda>child. from_text_node child (node_id parent)) (parse (SentenceSplitter 512) [parent])
     @ [from_text_node parent (node_id parent)]"

definition flat_index :: "splitting \<Rightarrow> text_node list \<Rightarrow> index_node list" where
  "flat_index parse parents = concat (map (family parse) parents)"

section \<open>HybridFusionRetrieverPack\<close>

record pack_A =
  vector_retriever :: ref
  bm25_retriever :: ref
  fusion_retriever :: ref
  query_engine :: ref

text \<open>The constructor; its further keyword arguments are not read.\<close>

definition init_A ::
  "text_node refusal \<Rightarrow> text_node list \<Rightarrow> int \<Rightarrow> string \<Rightarrow> int \<Rightarrow> int \<Rightarrow> int \<Rightarrow> int \<Rightarrow>
   (text_node, pack_A) constructing" where
  "init_A check nodes chunk_size mode vector_similarity_top_k bm25_similarity_top_k
      fusion_similarity_top_k num_queries =
     and_then (new check (ServiceContext (Some chunk_size) None None)) (\<lambda>service_context.
     and_then (new check (VectorStoreIndex nodes service_context)) (\<lambda>index.
     and_then (new check (VectorIndexRetriever index vector_similarity_top_k)) (\<lambda>vector_retriever.
     and_then (new check (BM25Retriever (DocstoreOf index) bm25_similarity_top_k))
       (\<lambda>bm25_retriever.
     and_then (new check (QueryFusionRetriever [vector_retriever, bm25_retriever]
        fusion_similarity_top_k num_queries mode True True)) (\<lambda>fusion_retriever.
     and_then (new check (RetrieverQueryEngine fusion_retriever None)) (\<lambda>query_engine.
     returning \<lparr>vector_retriever = vector_retriever, bm25_retriever = bm25_retriever,
       fusion_retriever = fusion_retriever, query_engine = query_engine\<rparr>))))))"

section \<open>Calling the packs\<close>

text \<open>
  The state of a program that holds a pack: the pack object, the objects of the framework
  that the constructor created, and the state of whatever the framework talks to (the
  embedding and language models, caches), of which the model knows nothing.
  \<^verbatim>\<open>retriever.retrieve(query)\<close> and \<^verbatim>\<open>query_engine.query(...)\<close> are code of the
  framework and are parameters: they read the objects and may change the state of the
  services. What they yield, a result or an exception, is what the method of the pack
  yields.
\<close>

record ('p, 'n, 's) world =
  self :: 'p
  objects :: "'n heap"
  services :: 's

type_synonym ('n, 's, 'r) retrieving = "'n heap \<Rightarrow> ref \<Rightarrow> string \<Rightarrow> 's \<Rightarrow> 'r \<times> 's"

type_synonym ('n, 's, 'q, 'a) querying = "'n heap \<Rightarrow> ref \<Rightarrow> 'q \<Rightarrow> 's \<Rightarrow> 'a \<times> 's"

definition get_modules_A :: "((pack_A, 'n, 's) world, (string \<times> ref) list) state" where
  "get_modules_A = State (\<lambda>w.
     ([(''vector_retriever'', vector_retriever (self w)),
       (''bm25_retriever'', bm25_retriever (self w)),
       (''fusion_retriever'', fusion_retriever (self w)),
       (''query_engine'', pack_A.query_engine (self w))], w))"

definition retrieve_A ::
  "('n, 's, 'r) retrieving \<Rightarrow> string \<Rightarrow> ((pack_A, 'n, 's) world, 'r) state" where
  "retrieve_A retrieve query_str = State (\<lambda>w.
     case retrieve (objects w) (fusion_retriever (self w)) query_str (services w) of
       (nodes, s') \<Rightarrow> (nodes, w\<lparr>services := s'\<rparr>))"

definition run_A ::
  "('n, 's, 'q, 'a) querying \<Rightarrow> 'q \<Rightarrow> ((pack_A, 'n, 's) world, 'a) state" where
  "run_A query args = State (\<lambda>w.
     case query (objects w) (pack_A.query_engine (self w)) args (services w) of
       (response, s') \<Rightarrow> (response, w\<lparr>services := s'\<rparr>))"

definition get_modules_B :: "((pack_B, 'n, 's) world, (string \<times> ref) list) state" where
  "get_modules_B = State (\<lambda>w.
     ([(''query_engine'', pack_B.query_engine (self w)),
       (''recursive_retriever'', recursive_retriever (self w)),
       (''llm'', llm (self w)),
       (''embed_model'', embed_model (self w)),
       (''service_context'', service_context (self w))], w))"

definition run_B ::
  "('n, 's, 'q, 'a) querying \<Rightarrow> 'q \<Rightarrow> ((pack_B, 'n, 's) world, 'a) state" where
  "run_B query args = State (\<lambda>w.
     case query (objects w) (pack_B.query_engine (self w)) args (services w) of
       (response, s') \<Rightarrow> (response, w\<lparr>services := s'\<rparr>))"

text \<open>A client calls the methods of a pack one after the other.\<close>

datatype 'q call_A = Retrieve_A string | Run_A 'q | Get_modules_A

datatype 'q call_B = Run_B 'q | Get_modules_B

datatype ('r, 'a) outcome_A = Nodes 'r | Response_A 'a | Modules_A "(string \<times> ref) list"

datatype 'a outcome_B = Response_B 'a | Modules_B "(string \<times> ref) list"

fun invoke_A ::
  "('n, 's, 'r) retrieving \<Rightarrow> ('n, 's, 'q, 'a) querying \<Rightarrow> 'q call_A \<Rightarrow>
   ((pack_A, 'n, 's) world, ('r, 'a) outcome_A) state" where
  "invoke_A retrieve query (Retrieve_A query_str) =
     do { nodes \<leftarrow> retrieve_A retrieve query_str; State_Monad.return (Nodes nodes) }"
| "invoke_A retrieve query (Run_A args) =
     do { response \<leftarrow> run_A query args; State_Monad.return (Response_A response) }"
| "invoke_A retrieve query Get_modules_A =
     do { modules \<leftarrow> get_modules_A; State_Monad.return (Modules_A modules) }"

fun invoke_B ::
  "('n, 's, 'q, 'a) querying \<Rightarrow> 'q call_B \<Rightarrow> ((pack_B, 'n, 's) world, 'a outcome_B) state" where
  "invoke_B query (Run_B args) =
     do { response \<leftarrow> run_B query args; State_Monad.return (Response_B response) }"
| "invoke_B query Get_modules_B =
     do { modules \<leftarrow> get_modules_B; State_Monad.return (Modules_B modules) }"

fun invoke_all :: "('c \<Rightarrow> ('w, 'o) state) \<Rightarrow> 'c list \<Rightarrow> ('w, 'o list) state" where
  "invoke_all invoke [] = State_Monad.return []"
| "invoke_all invoke (c # cs) =
     do { r \<leftarrow> invoke c; rs \<leftarrow> invoke_all invoke cs; State_Monad.return (r # rs) }"

section \<open>Reading the objects\<close>

definition new_objects :: "'n heap \<Rightarrow> 'n heap \<Rightarrow> 'n heap" where
  "new_objects h h' = drop (length h) h'"

fun is_vector_index :: "'n obj \<Rightarrow> bool" where
  "is_vector_index (VectorStoreIndex ns sc) = True"
| "is_vector_index ob = False"

fun is_vector_retriever :: "'n obj \<Rightarrow> bool" where
  "is_vector_retriever (VectorIndexRetriever i k) = True"
| "is_vector_retriever ob = False"

fun is_lexical_retriever :: "'n obj \<Rightarrow> bool" where
  "is_lexical_retriever (BM25Retriever d k) = True"
| "is_lexical_retriever ob = False"

fun is_fusion_retriever :: "'n obj \<Rightarrow> bool" where
  "is_fusion_retriever (QueryFusionRetriever rs k n m a v) = True"
| "is_fusion_retriever ob = False"

definition handle_is :: "('n obj \<Rightarrow> bool) \<Rightarrow> 'n heap \<Rightarrow> ref \<Rightarrow> bool" where
  "handle_is kind h r = (case deref h r of Some ob \<Rightarrow> kind ob | None \<Rightarrow> False)"



definition indexed_nodes :: "'n heap \<Rightarrow> ref \<Rightarrow> 'n list" where
  "indexed_nodes h r = (case deref h r of Some (VectorStoreIndex ns sc) \<Rightarrow> ns | _ \<Rightarrow> [])"

definition node_dict :: "'n heap \<Rightarrow> ref \<Rightarrow> (string \<times> 'n) list" where
  "node_dict h r = (case deref h r of Some (RecursiveRetriever root rd nd v) \<Rightarrow> nd | _ \<Rightarrow> [])"

definition root_retriever :: "'n heap \<Rightarrow> ref \<Rightarrow> ref option" where
  "root_retriever h r =
     (case deref h r of Some (RecursiveRetriever root rd nd v) \<Rightarrow> map_of rd root | _ \<Rightarrow> None)"

section \<open>What the framework refuses\<close>

text \<open>
  The checks of the framework that decide whether the constructors of the packs go
  through, in the version that the packs import from (llama-index 0.9):
  \<^item> \<^verbatim>\<open>SentenceSplitter(chunk_size=c)\<close> is created with the default overlap of the
    framework, 200, and raises \<^verbatim>\<open>ValueError\<close> when the overlap is larger than \<open>c\<close>;
  \<^item> \<^verbatim>\<open>ServiceContext.from_defaults(chunk_size=c)\<close> creates such a splitter of size \<open>c\<close>,
    or of the default size when \<open>c\<close> is zero or not given;
  \<^item> \<^verbatim>\<open>BM25Retriever.from_defaults\<close> divides by the number of nodes of the docstore and
    raises \<^verbatim>\<open>ZeroDivisionError\<close> when there is none.
\<close>

definition SENTENCE_CHUNK_OVERLAP :: int where
  "SENTENCE_CHUNK_OVERLAP = 200"

fun framework_check :: "'n refusal" where
  "framework_check h (New_splitter c) =
     (if SENTENCE_CHUNK_OVERLAP > c then Some ValueError else None)"
| "framework_check h (New_object (ServiceContext (Some c) l e)) =
     (if c \<noteq> 0 \<and> SENTENCE_CHUNK_OVERLAP > c then Some ValueError else None)"
| "framework_check h (New_object (BM25Retriever (DocstoreOf i) k)) =
     (if indexed_nodes h i = [] then Some ZeroDivisionError else None)"
| "framework_check h c = None"

text \<open>A framework that refuses nothing.\<close>

definition accepting :: "'n refusal" where
  "accepting h c = None"

section \<open>A splitter and a retriever to run the packs with\<close>

text \<open>
  One behaviour that the framework could have, to run the constructors on: a splitter that
  cuts a text every \<open>c\<close> characters and names a chunk after its document, \<open>c\<close> and its
  position, a retriever that has three candidates for every query and answers with
  \<^verbatim>\<open>candidates[:similarity_top_k]\<close>, a query engine that answers with a sentence, and
  services that count the calls.
\<close>

function chunks_of :: "nat \<Rightarrow> string \<Rightarrow> string list" where
  "chunks_of c s = (if c = 0 \<or> s = [] then [] else take c s # chunks_of c (drop c s))"
  by pat_completeness auto
termination
  by (relation "measure (\<lambda>(c, s). length s)") auto

fun sample_parse :: splitting where
  "sample_parse (SentenceSplitter c) docs =
     concat (map (\<lambda>d.
       map (\<lambda>(k, t). \<lparr>node_id = node_id d @ ''/'' @ string_of_nat (nat c) @ ''/'' @ string_of_nat k,
                      node_text = t, metadata = metadata d\<rparr>)
         (enumerate 0 (chunks_of (nat c) (node_text d)))) docs)"

text \<open>A second behaviour: the same chunks under other identifiers, as in another run.\<close>

definition renaming_parse :: splitting where
  "renaming_parse n docs =
     map (\<lambda>nd. nd\<lparr>node_id := ''second-run/'' @ node_id nd\<rparr>) (sample_parse n docs)"



definition sample_query :: "('n, nat, string, string) querying" where
  "sample_query h r args s = (''An answer to: '' @ args, Suc s)"

definition sample_docs :: "text_node list" where
  "sample_docs =
     [\<lparr>node_id = ''doc-a'',
       node_text = ''Index the small chunks and answer with the big ones: every child chunk of a parent chunk refers to its parent, which is what is returned.'',
       metadata = []\<rparr>,
      \<lparr>node_id = ''doc-b'', node_text = ''Small to big.'', metadata = []\<rparr>]"

text \<open>
  The state of a program that holds a small-to-big pack over the sample documents, as a
  framework that refuses nothing leaves it, and the hybrid pack with its objects that the
  constructor leaves for the sample documents.
\<close>

definition sample_world_B :: "(pack_B, index_node, nat) world" where
  "sample_world_B =
     \<lparr>self = \<lparr>node_parser = SentenceSplitter 1024, embed_model = 0, llm = 1,
        service_context = 2, vector_index_chunk = 3, recursive_retriever = 5,
        query_engine = 6\<rparr>,
      objects =
        [EmbedModel ''local:BAAI/bge-small-en'', OpenAI ''gpt-3.5-turbo'',
         ServiceContext None (Some 1) (Some 0),
         VectorStoreIndex (build_all_nodes sample_parse (map SentenceSplitter sub_chunk_sizes)
            (base_nodes_of sample_parse sample_docs)) 2,
         VectorIndexRetriever 3 2,
         RecursiveRetriever ''vector'' [(''vector'', 4)]
           (build_nodes_dict (build_all_nodes sample_parse (map SentenceSplitter sub_chunk_sizes)
              (base_nodes_of sample_parse sample_docs))) True,
         RetrieverQueryEngine 5 (Some 2)],
      services = 0\<rparr>"

definition sample_pack_A :: pack_A where
  "sample_pack_A =
     \<lparr>vector_retriever = 2, bm25_retriever = 3, fusion_retriever = 4, query_engine = 5\<rparr>"

definition sample_objects_A :: "int \<Rightarrow> text_node heap" where
  "sample_objects_A fusion_similarity_top_k =
     [ServiceContext (Some 256) None None,
      VectorStoreIndex sample_docs 0,
      VectorIndexRetriever 1 2,
      BM25Retriever (DocstoreOf 1) 2,
      QueryFusionRetriever [2, 3] fusion_similarity_top_k 4 ''reciprocal_rerank'' True True,
      RetrieverQueryEngine 4 None]"

section \<open>Identifiers of the parent chunks\<close>

lemma digit_char_inj: "a < 10 \<Longrightarrow> b < 10 \<Longrightarrow> digit_char a = digit_char b \<Longrightarrow> a = b"
proof -
  assume a: "a < 10" and b: "b < 10" and e: "digit_char a = digit_char b"
  have A: "a \<in> {0,1,2,3,4,5,6,7,8,9}" using a by auto
  have B: "b \<in> {0,1,2,3,4,5,6,7,8,9}" using b by auto
  show ?thesis using A B e by (auto simp: digit_char_def)
qed

lemma string_of_nat_nonempty: "string_of_nat n \<noteq> []"
  by (induction n rule: string_of_nat.induct) (subst string_of_nat.simps, simp)

lemma string_of_nat_inj: "string_of_nat m = string_of_nat n \<Longrightarrow> m = n"
proof (induction m arbitrary: n rule: string_of_nat.induct)
  case (1 m)
  show ?case
  proof (cases "m < 10")
    case True
    then have sm: "string_of_nat m = [digit_char m]" by simp
    show ?thesis
    proof (cases "n < 10")
      case True
      then have "string_of_nat n = [digit_char n]" by simp
      with sm "1.prems" have "digit_char m = digit_char n" by simp
      with \<open>m < 10\<close> True show ?thesis by (rule digit_char_inj)
    next
      case False
      then have "string_of_nat n = string_of_nat (n div 10) @ [digit_char (n mod 10)]"
        by (subst string_of_nat.simps) simp
      with sm "1.prems" have "string_of_nat (n div 10) = []" by simp
      then show ?thesis using string_of_nat_nonempty by blast
    qed
  next
    case False
    then have sm: "string_of_nat m = string_of_nat (m div 10) @ [digit_char (m mod 10)]"
      by (subst string_of_nat.simps) simp
    show ?thesis
    proof (cases "n < 10")
      case True
      then have "string_of_nat n = [digit_char n]" by simp
      with sm "1.prems" have "string_of_nat (m div 10) = []" by simp
      then show ?thesis using string_of_nat_nonempty by blast
    next
      case nf: False
      then have sn: "string_of_nat n = string_of_nat (n div 10) @ [digit_char (n mod 10)]"
        by (subst string_of_nat.simps) simp
      from sm sn "1.prems" have e1: "string_of_nat (m div 10) = string_of_nat (n div 10)"
        and e2: "digit_char (m mod 10) = digit_char (n mod 10)" by simp_all
      from "1.IH" [OF False e1] have d: "m div 10 = n div 10" .
      have "m mod 10 = n mod 10" using e2 by (intro digit_char_inj) simp_all
      with d show ?thesis by (metis div_mult_mod_eq)
    qed
  qed
qed

lemma node_name_inj: "node_name i = node_name j \<Longrightarrow> i = j"
  by (simp add: node_name_def string_of_nat_inj)

lemma length_set_node_ids: "length (set_node_ids xs) = length xs"
  by (simp add: set_node_ids_def)

lemma nth_set_node_ids: "i < length xs \<Longrightarrow> set_node_ids xs ! i = (xs ! i)\<lparr>node_id := node_name i\<rparr>"
  by (simp add: set_node_ids_def nth_enumerate_eq)

lemma ids_set_node_ids: "map node_id (set_node_ids xs) = map node_name [0..<length xs]"
  by (rule nth_equalityI) (simp_all add: length_set_node_ids nth_set_node_ids)

section \<open>The loops of the constructor\<close>

lemma foldl_add_sub_nodes:
  "foldl (add_sub_nodes parse b) acc ps =
     acc @ concat (map (\<lambda>n. map (\<lambda>sn. from_text_node sn (node_id b)) (parse n [b])) ps)"
  by (induction ps arbitrary: acc) (simp_all add: add_sub_nodes_def)

lemma foldl_add_base_node:
  "foldl (add_base_node parse ps) acc bs =
     acc @ concat (map (\<lambda>b. concat (map (\<lambda>n. map (\<lambda>sn. from_text_node sn (node_id b)) (parse n [b])) ps)
                         @ [from_text_node b (node_id b)]) bs)"
  by (induction bs arbitrary: acc) (simp_all add: add_base_node_def foldl_add_sub_nodes)

section \<open>The node mapping\<close>

lemma keys_foldl_update:
  "fst ` set (foldl (\<lambda>d n. AList.update (node_id n) n d) d0 ns) = fst ` set d0 \<union> node_id ` set ns"
  by (induction ns arbitrary: d0) (auto simp: dom_update)

lemma map_of_foldl_update:
  "map_of (foldl (\<lambda>d n. AList.update (node_id n) n d) d0 ns) k = Some v \<Longrightarrow> map_of d0 k = Some v \<or> (v \<in> set ns \<and> node_id v = k)"
proof (induction ns arbitrary: d0)
  case Nil
  then show ?case by simp
next
  case (Cons a ns)
  from Cons.prems have "map_of (foldl (\<lambda>d n. AList.update (node_id n) n d) (AList.update (node_id a) a d0) ns) k = Some v"
    by simp
  from Cons.IH [OF this]
  have "map_of (AList.update (node_id a) a d0) k = Some v \<or> v \<in> set ns \<and> node_id v = k" .
  then show ?case
    by (auto simp: update_conv' split: if_splits)
qed

section \<open>The flat index\<close>

lemma build_all_nodes_flat:
  "build_all_nodes parse (map SentenceSplitter sub_chunk_sizes) bs = flat_index parse bs"
  by (simp add: build_all_nodes_def foldl_add_base_node flat_index_def family_def [abs_def] sub_chunk_sizes_def)

lemma distinct_ids: "distinct (map node_id (set_node_ids xs))"
  by (simp add: ids_set_node_ids distinct_map inj_on_def node_name_inj)

lemma set_node_ids_cong:
  assumes "map (\<lambda>n. n\<lparr>node_id := []\<rparr>) xs = map (\<lambda>n. n\<lparr>node_id := []\<rparr>) ys"
  shows "set_node_ids xs = set_node_ids ys"
proof (rule nth_equalityI)
  from assms have "length (map (\<lambda>n. n\<lparr>node_id := []\<rparr>) xs) = length (map (\<lambda>n. n\<lparr>node_id := []\<rparr>) ys)"
    by simp
  then show len: "length (set_node_ids xs) = length (set_node_ids ys)"
    by (simp add: length_set_node_ids)
  fix i assume "i < length (set_node_ids xs)"
  then have i: "i < length xs" "i < length ys" using len by (simp_all add: length_set_node_ids)
  from assms have "map (\<lambda>n. n\<lparr>node_id := []\<rparr>) xs ! i = map (\<lambda>n. n\<lparr>node_id := []\<rparr>) ys ! i"
    by simp
  with i have "(xs ! i)\<lparr>node_id := []\<rparr> = (ys ! i)\<lparr>node_id := []\<rparr>" by simp
  then have "((xs ! i)\<lparr>node_id := []\<rparr>)\<lparr>node_id := node_name i\<rparr> = ((ys ! i)\<lparr>node_id := []\<rparr>)\<lparr>node_id := node_name i\<rparr>"
    by simp
  then have "(xs ! i)\<lparr>node_id := node_name i\<rparr> = (ys ! i)\<lparr>node_id := node_name i\<rparr>" by simp
  with i show "set_node_ids xs ! i = set_node_ids ys ! i" by (simp add: nth_set_node_ids)
qed

lemma node_id_from_text_node: "node_id (from_text_node n r) = node_id n"
  by (simp add: from_text_node_def)

lemma keys_build_nodes_dict: "fst ` set (build_nodes_dict ns) = node_id ` set ns"
  by (simp add: build_nodes_dict_def keys_foldl_update)

lemma build_nodes_dict_sound:
  "map_of (build_nodes_dict ns) k = Some v \<Longrightarrow> v \<in> set ns \<and> node_id v = k"
  using map_of_foldl_update [of "[]" ns k v] by (simp add: build_nodes_dict_def)

lemma build_nodes_dict_resolves:
  assumes "k \<in> node_id ` set ns"
  shows "\<exists>m. map_of (build_nodes_dict ns) k = Some m \<and> m \<in> set ns \<and> node_id m = k"
proof -
  from assms have "k \<in> fst ` set (build_nodes_dict ns)" by (simp add: keys_build_nodes_dict)
  then have "k \<in> dom (map_of (build_nodes_dict ns))" by (simp add: dom_map_of_conv_image_fst)
  then obtain m where m: "map_of (build_nodes_dict ns) k = Some m" by blast
  with build_nodes_dict_sound [OF m] show ?thesis by blast
qed

lemma new_objects_append: "new_objects h (h @ xs) = xs"
  by (simp add: new_objects_def)

section \<open>Running the constructors\<close>

lemma sample_all_nodes_ids:
  "map (\<lambda>n. (node_id n, index_id n)) (flat_index sample_parse (base_nodes_of sample_parse sample_docs)) =
     [(''node-0/128/0'', ''node-0''), (''node-0/128/1'', ''node-0''),
      (''node-0/256/0'', ''node-0''), (''node-0/512/0'', ''node-0''),
      (''node-0'', ''node-0''), (''node-1/128/0'', ''node-1''),
      (''node-1/256/0'', ''node-1''), (''node-1/512/0'', ''node-1''),
      (''node-1'', ''node-1'')]"
  by code_simp

lemma sample_split_ids:
  "map node_id (sample_parse (SentenceSplitter 1024) sample_docs) = [''doc-a/1024/0'', ''doc-b/1024/0'']"
  by code_simp

lemma renaming_parse_same_chunks:
  "map (node_id_update (\<lambda>_. [])) (renaming_parse n docs) = map (node_id_update (\<lambda>_. [])) (sample_parse n docs)"
  by (simp add: renaming_parse_def)

lemma renaming_parse_ids:
  "map node_id (renaming_parse (SentenceSplitter 1024) sample_docs) =
     [''second-run/doc-a/1024/0'', ''second-run/doc-b/1024/0'']"
  by code_simp

section \<open>What the constructors create\<close>

lemma and_then_Inr:
  "and_then m f h = (Inr y, h'') \<longleftrightarrow> (\<exists>x h'. m h = (Inr x, h') \<and> f x h' = (Inr y, h''))"
  by (auto simp: and_then_def split: prod.splits sum.splits)

lemma new_Inr:
  "new check ob h = (Inr r, h') \<longleftrightarrow> check h (New_object ob) = None \<and> r = length h \<and> h' = h @ [ob]"
  by (auto simp: new_def split: option.splits)

lemma new_splitter_Inr:
  "new_splitter check c h = (Inr n, h') \<longleftrightarrow>
     check h (New_splitter c) = None \<and> n = SentenceSplitter c \<and> h' = h"
  by (auto simp: new_splitter_def split: option.splits)

lemma returning_Inr: "returning x h = (Inr y, h') \<longleftrightarrow> y = x \<and> h' = h"
  by (auto simp: returning_def)

lemma new_splitters_Inr:
  "new_splitters check cs h = (Inr ns, h') \<Longrightarrow> ns = map SentenceSplitter cs \<and> h' = h"
  by (induction cs arbitrary: ns) (auto simp: and_then_Inr new_splitter_Inr returning_Inr)

lemma init_A_completes:
  assumes "init_A check nodes chunk_size mode vk bk fk nq h = (Inr p, h')"
  shows "p = \<lparr>vector_retriever = length h + 2, bm25_retriever = length h + 3,
               fusion_retriever = length h + 4, query_engine = length h + 5\<rparr>"
    and "h' = h @ [ServiceContext (Some chunk_size) None None,
           VectorStoreIndex nodes (length h),
           VectorIndexRetriever (length h + 1) vk,
           BM25Retriever (DocstoreOf (length h + 1)) bk,
           QueryFusionRetriever [length h + 2, length h + 3] fk nq mode True True,
           RetrieverQueryEngine (length h + 4) None]"
  using assms by (auto simp: init_A_def and_then_Inr new_Inr returning_Inr)

lemma init_B_completes:
  assumes "init_B check parse docs h = (Inr p, h')"
  shows "p = \<lparr>node_parser = SentenceSplitter 1024, embed_model = length h, llm = length h + 1,
       service_context = length h + 2, vector_index_chunk = length h + 3,
       recursive_retriever = length h + 5, query_engine = length h + 6\<rparr>"
    and "h' = h @ [EmbedModel ''local:BAAI/bge-small-en'', OpenAI ''gpt-3.5-turbo'',
           ServiceContext None (Some (length h + 1)) (Some (length h)),
           VectorStoreIndex (build_all_nodes parse (map SentenceSplitter sub_chunk_sizes)
              (base_nodes_of parse docs)) (length h + 2),
           VectorIndexRetriever (length h + 3) 2,
           RecursiveRetriever ''vector'' [(''vector'', length h + 4)]
             (build_nodes_dict (build_all_nodes parse (map SentenceSplitter sub_chunk_sizes)
                (base_nodes_of parse docs))) True,
           RetrieverQueryEngine (length h + 5) (Some (length h + 2))]"
  using assms
  by (auto simp: init_B_def and_then_Inr new_Inr new_splitter_Inr returning_Inr Let_def
        base_nodes_of_def dest!: new_splitters_Inr)

lemma new_splitters_accepting:
  "new_splitters accepting cs h = (Inr (map SentenceSplitter cs), h)"
  by (induction cs) (simp_all add: and_then_def new_splitter_def returning_def accepting_def)

lemma init_B_accepting:
  "init_B accepting parse docs h =
    (Inr \<lparr>node_parser = SentenceSplitter 1024, embed_model = length h, llm = length h + 1,
       service_context = length h + 2, vector_index_chunk = length h + 3,
       recursive_retriever = length h + 5, query_engine = length h + 6\<rparr>,
     h @ [EmbedModel ''local:BAAI/bge-small-en'', OpenAI ''gpt-3.5-turbo'',
           ServiceContext None (Some (length h + 1)) (Some (length h)),
           VectorStoreIndex (build_all_nodes parse (map SentenceSplitter sub_chunk_sizes)
              (base_nodes_of parse docs)) (length h + 2),
           VectorIndexRetriever (length h + 3) 2,
           RecursiveRetriever ''vector'' [(''vector'', length h + 4)]
             (build_nodes_dict (build_all_nodes parse (map SentenceSplitter sub_chunk_sizes)
                (base_nodes_of parse docs))) True,
           RetrieverQueryEngine (length h + 5) (Some (length h + 2))])"
  by (simp add: init_B_def and_then_def new_def new_splitter_def returning_def
        new_splitters_accepting Let_def base_nodes_of_def accepting_def)

lemma init_B_framework:
  "init_B framework_check parse docs h =
    (Inl ValueError,
     h @ [EmbedModel ''local:BAAI/bge-small-en'', OpenAI ''gpt-3.5-turbo'',
          ServiceContext None (Some (length h + 1)) (Some (length h))])"
  by (simp add: init_B_def and_then_def new_def new_splitter_def returning_def
        Let_def sub_chunk_sizes_def SENTENCE_CHUNK_OVERLAP_def)

lemma init_A_framework:
  "init_A framework_check nodes chunk_size mode vk bk fk nq h =
    (if chunk_size \<noteq> 0 \<and> chunk_size < 200 then (Inl ValueError, h)
     else if nodes = [] then
       (Inl ZeroDivisionError,
        h @ [ServiceContext (Some chunk_size) None None,
             VectorStoreIndex nodes (length h),
             VectorIndexRetriever (length h + 1) vk])
     else
       (Inr \<lparr>vector_retriever = length h + 2, bm25_retriever = length h + 3,
               fusion_retriever = length h + 4, query_engine = length h + 5\<rparr>,
        h @ [ServiceContext (Some chunk_size) None None,
           VectorStoreIndex nodes (length h),
           VectorIndexRetriever (length h + 1) vk,
           BM25Retriever (DocstoreOf (length h + 1)) bk,
           QueryFusionRetriever [length h + 2, length h + 3] fk nq mode True True,
           RetrieverQueryEngine (length h + 4) None]))"
  by (simp add: init_A_def and_then_def new_def returning_def SENTENCE_CHUNK_OVERLAP_def
        indexed_nodes_def deref_def nth_append)

section \<open>The node graph of the small-to-big pack\<close>

lemma build_all_nodes_eq:
  "build_all_nodes parse ps bs =
     concat (map (\<lambda>b. concat (map (\<lambda>n. map (\<lambda>sn. from_text_node sn (node_id b)) (parse n [b])) ps)
                       @ [from_text_node b (node_id b)]) bs)"
  by (simp add: build_all_nodes_def foldl_add_base_node)

lemma index_id_in_all_nodes:
  assumes "n \<in> set (build_all_nodes parse ps bs)"
  shows "index_id n \<in> node_id ` set (build_all_nodes parse ps bs)"
proof -
  from assms obtain b where b: "b \<in> set bs" and n: "index_id n = node_id b"
    by (auto simp: build_all_nodes_eq from_text_node_def)
  from b have "from_text_node b (node_id b) \<in> set (build_all_nodes parse ps bs)"
    by (auto simp: build_all_nodes_eq)
  then have "node_id (from_text_node b (node_id b)) \<in> node_id ` set (build_all_nodes parse ps bs)"
    by (rule imageI)
  then show ?thesis by (simp add: n node_id_from_text_node)
qed

lemma all_nodes_resolve:
  assumes "n \<in> set (build_all_nodes parse ps bs)"
  shows "index_id n \<in> fst ` set (build_nodes_dict (build_all_nodes parse ps bs)) \<and>
         (\<exists>m. map_of (build_nodes_dict (build_all_nodes parse ps bs)) (index_id n) = Some m \<and>
              m \<in> set (build_all_nodes parse ps bs) \<and> node_id m = index_id n)"
  using build_nodes_dict_resolves [OF index_id_in_all_nodes [OF assms]]
    index_id_in_all_nodes [OF assms]
  by (simp add: keys_build_nodes_dict)

lemma sample_B_accepted:
  "init_B accepting sample_parse sample_docs [] = (Inr (self sample_world_B), objects sample_world_B)"
  by (simp add: init_B_accepting sample_world_B_def)

text \<open>
  C1. Every node that the loops of the constructor of \<^verbatim>\<open>RecursiveRetrieverSmallToBigPack\<close>
  put into \<^verbatim>\<open>all_nodes\<close>, a wrapped child chunk or a wrapped parent chunk, refers to an
  identifier that is a key of the node mapping built from \<^verbatim>\<open>all_nodes\<close>, and the entry
  under that key is a node of \<^verbatim>\<open>all_nodes\<close> with that identifier. Whenever the
  constructor goes through, these are the nodes of the flat index and the node mapping
  given to the recursive retriever.
\<close>

theorem references_resolve:
  "(let all_nodes = build_all_nodes parse sub_node_parsers base_nodes;
        all_nodes_dict = build_nodes_dict all_nodes
    in \<forall>n \<in> set all_nodes.
         index_id n \<in> fst ` set all_nodes_dict \<and>
         (\<exists>m. map_of all_nodes_dict (index_id n) = Some m \<and> m \<in> set all_nodes \<and>
              node_id m = index_id n)) \<and>
   (init_B check parse docs h = (Inr p, h') \<longrightarrow>
      (let all_nodes = indexed_nodes h' (vector_index_chunk p);
           all_nodes_dict = node_dict h' (recursive_retriever p)
       in all_nodes = build_all_nodes parse (map SentenceSplitter sub_chunk_sizes)
                        (base_nodes_of parse docs) \<and>
          all_nodes_dict = build_nodes_dict all_nodes \<and>
          (\<forall>n \<in> set all_nodes.
             index_id n \<in> fst ` set all_nodes_dict \<and>
             (\<exists>m. map_of all_nodes_dict (index_id n) = Some m \<and> m \<in> set all_nodes \<and>
                  node_id m = index_id n))))"
proof (intro conjI impI)
  show "let all_nodes = build_all_nodes parse sub_node_parsers base_nodes;
        all_nodes_dict = build_nodes_dict all_nodes
    in \<forall>n \<in> set all_nodes.
         index_id n \<in> fst ` set all_nodes_dict \<and>
         (\<exists>m. map_of all_nodes_dict (index_id n) = Some m \<and> m \<in> set all_nodes \<and>
              node_id m = index_id n)"
    unfolding Let_def using all_nodes_resolve by blast
next
  assume c: "init_B check parse docs h = (Inr p, h')"
  let ?ns = "build_all_nodes parse (map SentenceSplitter sub_chunk_sizes) (base_nodes_of parse docs)"
  have a: "indexed_nodes h' (vector_index_chunk p) = ?ns"
    by (simp add: init_B_completes [OF c] indexed_nodes_def deref_def nth_append)
  have d: "node_dict h' (recursive_retriever p) = build_nodes_dict ?ns"
    by (simp add: init_B_completes [OF c] node_dict_def deref_def nth_append)
  have "\<forall>n \<in> set ?ns.
             index_id n \<in> fst ` set (build_nodes_dict ?ns) \<and>
             (\<exists>m. map_of (build_nodes_dict ?ns) (index_id n) = Some m \<and> m \<in> set ?ns \<and>
                  node_id m = index_id n)"
    using all_nodes_resolve by blast
  then show "let all_nodes = indexed_nodes h' (vector_index_chunk p);
           all_nodes_dict = node_dict h' (recursive_retriever p)
       in all_nodes = build_all_nodes parse (map SentenceSplitter sub_chunk_sizes)
                        (base_nodes_of parse docs) \<and>
          all_nodes_dict = build_nodes_dict all_nodes \<and>
          (\<forall>n \<in> set all_nodes.
             index_id n \<in> fst ` set all_nodes_dict \<and>
             (\<exists>m. map_of all_nodes_dict (index_id n) = Some m \<and> m \<in> set all_nodes \<and>
                  node_id m = index_id n))"
    by (simp only: Let_def a d)
qed

theorem references_resolve_witness:
  "init_B accepting sample_parse sample_docs [] =
     (Inr (self sample_world_B), objects sample_world_B) \<and>
   (let all_nodes = indexed_nodes (objects sample_world_B) (vector_index_chunk (self sample_world_B));
        all_nodes_dict = node_dict (objects sample_world_B) (recursive_retriever (self sample_world_B))
    in all_nodes = build_all_nodes sample_parse (map SentenceSplitter sub_chunk_sizes)
                     (base_nodes_of sample_parse sample_docs) \<and>
       all_nodes ! 1 \<in> set all_nodes \<and>
       (node_id (all_nodes ! 1), index_id (all_nodes ! 1)) = (''node-0/128/1'', ''node-0'') \<and>
       map_option node_id (map_of all_nodes_dict (index_id (all_nodes ! 1))) = Some ''node-0'' \<and>
       map_option node_id (map_of (build_nodes_dict all_nodes) (index_id (all_nodes ! 1))) =
         Some ''node-0'')"
proof -
  let ?ns = "indexed_nodes (objects sample_world_B) (vector_index_chunk (self sample_world_B))"
  let ?d = "node_dict (objects sample_world_B) (recursive_retriever (self sample_world_B))"
  let ?bs = "build_all_nodes sample_parse (map SentenceSplitter sub_chunk_sizes)
               (base_nodes_of sample_parse sample_docs)"
  note r = references_resolve [where check = accepting and parse = sample_parse
      and docs = sample_docs and h = "[]" and p = "self sample_world_B"
      and h' = "objects sample_world_B" and sub_node_parsers = "map SentenceSplitter sub_chunk_sizes"
      and base_nodes = "base_nodes_of sample_parse sample_docs", unfolded Let_def]
  note r1 = r [THEN conjunct1]
  note r2 = r [THEN conjunct2, THEN mp, OF sample_B_accepted]
  from r2 have ns: "?ns = ?bs" by (rule conjunct1)
  have ids: "map (\<lambda>n. (node_id n, index_id n)) ?ns ! 1 = (''node-0/128/1'', ''node-0'')"
    by (simp only: ns build_all_nodes_flat sample_all_nodes_ids) simp
  have len: "length ?ns = 9"
    using arg_cong [OF sample_all_nodes_ids, of length] by (simp add: ns build_all_nodes_flat)
  then have m: "?ns ! 1 \<in> set ?ns" by simp
  from ids len have p: "(node_id (?ns ! 1), index_id (?ns ! 1)) = (''node-0/128/1'', ''node-0'')"
    by simp
  from r2 m obtain m' where "map_of ?d (index_id (?ns ! 1)) = Some m'" "node_id m' = index_id (?ns ! 1)"
    by blast
  with p have q: "map_option node_id (map_of ?d (index_id (?ns ! 1))) = Some ''node-0''" by simp
  from m have "?ns ! 1 \<in> set ?bs" by (simp only: ns)
  with r1 obtain m'' where "map_of (build_nodes_dict ?bs) (index_id (?ns ! 1)) = Some m''"
      "node_id m'' = index_id (?ns ! 1)"
    by blast
  with p have q': "map_option node_id (map_of (build_nodes_dict ?ns) (index_id (?ns ! 1))) = Some ''node-0''"
    by (simp add: ns)
  from sample_B_accepted ns m p q q' show ?thesis by (simp only: Let_def)
qed

text \<open>
  C2. The parent chunks of the size-1024 split get the identifiers \<^verbatim>\<open>node-0\<close>,
  \<^verbatim>\<open>node-1\<close>, ... in the order in which the splitter returns them, they are distinct
  and nothing else of a chunk changes; the loops of the sub-splitters work on the chunks
  under these identifiers; and two constructions whose splitters cut the same parent
  chunks, under whatever identifiers, end with the same parent chunks under the same
  identifiers.
\<close>

theorem parent_ids_in_document_order:
  "map node_id (base_nodes_of parse docs) =
      map (\<lambda>idx. ''node-'' @ string_of_nat idx) [0..<length (parse (SentenceSplitter 1024) docs)] \<and>
   distinct (map node_id (base_nodes_of parse docs)) \<and>
   map (node_id_update (\<lambda>_. [])) (base_nodes_of parse docs) =
      map (node_id_update (\<lambda>_. [])) (parse (SentenceSplitter 1024) docs) \<and>
   build_all_nodes parse (map SentenceSplitter sub_chunk_sizes) (base_nodes_of parse docs) =
      concat (map (family parse) (base_nodes_of parse docs)) \<and>
   (map (node_id_update (\<lambda>_. [])) (parse (SentenceSplitter 1024) docs) =
      map (node_id_update (\<lambda>_. [])) (parse' (SentenceSplitter 1024) docs) \<longrightarrow>
    base_nodes_of parse docs = base_nodes_of parse' docs)"
proof (intro conjI impI)
  show "map node_id (base_nodes_of parse docs) =
      map (\<lambda>idx. ''node-'' @ string_of_nat idx) [0..<length (parse (SentenceSplitter 1024) docs)]"
    using ids_set_node_ids [of "parse (SentenceSplitter 1024) docs"]
    by (simp add: base_nodes_of_def node_name_def [abs_def])
  show "distinct (map node_id (base_nodes_of parse docs))"
    by (simp only: base_nodes_of_def distinct_ids)
  show "map (node_id_update (\<lambda>_. [])) (base_nodes_of parse docs) =
      map (node_id_update (\<lambda>_. [])) (parse (SentenceSplitter 1024) docs)"
    by (rule nth_equalityI) (simp_all add: base_nodes_of_def length_set_node_ids nth_set_node_ids)
  show "build_all_nodes parse (map SentenceSplitter sub_chunk_sizes) (base_nodes_of parse docs) =
      concat (map (family parse) (base_nodes_of parse docs))"
    by (simp only: build_all_nodes_flat flat_index_def)
  assume "map (node_id_update (\<lambda>_. [])) (parse (SentenceSplitter 1024) docs) =
      map (node_id_update (\<lambda>_. [])) (parse' (SentenceSplitter 1024) docs)"
  then show "base_nodes_of parse docs = base_nodes_of parse' docs"
    unfolding base_nodes_of_def by (rule set_node_ids_cong)
qed

theorem parent_ids_in_document_order_witness:
  "map node_id (sample_parse (SentenceSplitter 1024) sample_docs) \<noteq>
     map node_id (renaming_parse (SentenceSplitter 1024) sample_docs) \<and>
   map (node_id_update (\<lambda>_. [])) (sample_parse (SentenceSplitter 1024) sample_docs) =
     map (node_id_update (\<lambda>_. [])) (renaming_parse (SentenceSplitter 1024) sample_docs) \<and>
   base_nodes_of sample_parse sample_docs = base_nodes_of renaming_parse sample_docs \<and>
   map node_id (base_nodes_of renaming_parse sample_docs) = [''node-0'', ''node-1'']"
proof -
  have a: "map node_id (sample_parse (SentenceSplitter 1024) sample_docs) \<noteq>
     map node_id (renaming_parse (SentenceSplitter 1024) sample_docs)"
    by (simp only: sample_split_ids renaming_parse_ids) simp
  have b: "map (node_id_update (\<lambda>_. [])) (sample_parse (SentenceSplitter 1024) sample_docs) =
     map (node_id_update (\<lambda>_. [])) (renaming_parse (SentenceSplitter 1024) sample_docs)"
    by (simp only: renaming_parse_same_chunks)
  note t = parent_ids_in_document_order [where parse = sample_parse and docs = sample_docs
      and parse' = renaming_parse]
  note t1 = t [THEN conjunct1]
  note t5 = t [THEN conjunct2, THEN conjunct2, THEN conjunct2, THEN conjunct2]
  from t5 b have c: "base_nodes_of sample_parse sample_docs = base_nodes_of renaming_parse sample_docs"
    by (rule mp)
  have l: "length (sample_parse (SentenceSplitter 1024) sample_docs) = 2"
    using arg_cong [OF sample_split_ids, of length] by simp
  have "map node_id (base_nodes_of sample_parse sample_docs) =
      map (\<lambda>idx. ''node-'' @ string_of_nat idx) [0..<2]"
    using t1 by (simp only: l)
  also have "\<dots> = [''node-0'', ''node-1'']" by code_simp
  finally have d: "map node_id (base_nodes_of renaming_parse sample_docs) = [''node-0'', ''node-1'']"
    by (simp only: c)
  from a b c d show ?thesis by (intro conjI)
qed

section \<open>The constructor of the small-to-big pack does not go through\<close>

text \<open>
  C3. The constructor of \<^verbatim>\<open>RecursiveRetrieverSmallToBigPack\<close> is written to split the
  parent chunks at the sizes 128, 256 and 512 and to put children and parents into one
  vector index. With the framework's default overlap it does not get there: creating the
  splitter of size 128 raises \<^verbatim>\<open>ValueError\<close>, for every list of documents, after the
  embedding model, the language model and the service context have been created, and no
  vector index is made.
\<close>

theorem sub_splitter_refused:
  "new_splitter framework_check 128 h = (Inl ValueError, h) \<and>
   init_B framework_check parse docs h =
     (Inl ValueError,
      h @ [EmbedModel ''local:BAAI/bge-small-en'', OpenAI ''gpt-3.5-turbo'',
           ServiceContext None (Some (length h + 1)) (Some (length h))]) \<and>
   filter is_vector_index (new_objects h (snd (init_B framework_check parse docs h))) = []"
  by (simp add: init_B_framework new_objects_append new_splitter_def SENTENCE_CHUNK_OVERLAP_def)


section \<open>The methods of the packs\<close>

lemma run_get_modules_A:
  "run_state get_modules_A w =
     ([(''vector_retriever'', vector_retriever (self w)),
       (''bm25_retriever'', bm25_retriever (self w)),
       (''fusion_retriever'', fusion_retriever (self w)),
       (''query_engine'', pack_A.query_engine (self w))], w)"
  by (simp add: get_modules_A_def)

lemma run_get_modules_B:
  "run_state get_modules_B w =
     ([(''query_engine'', pack_B.query_engine (self w)),
       (''recursive_retriever'', recursive_retriever (self w)),
       (''llm'', llm (self w)),
       (''embed_model'', embed_model (self w)),
       (''service_context'', service_context (self w))], w)"
  by (simp add: get_modules_B_def)

lemma run_retrieve_A:
  "run_state (retrieve_A retrieve query_str) w =
     (fst (retrieve (objects w) (fusion_retriever (self w)) query_str (services w)),
      w\<lparr>services := snd (retrieve (objects w) (fusion_retriever (self w)) query_str (services w))\<rparr>)"
  by (simp add: retrieve_A_def split: prod.splits)

lemma run_run_A:
  "run_state (run_A query args) w =
     (fst (query (objects w) (pack_A.query_engine (self w)) args (services w)),
      w\<lparr>services := snd (query (objects w) (pack_A.query_engine (self w)) args (services w))\<rparr>)"
  by (simp add: run_A_def split: prod.splits)

lemma run_run_B:
  "run_state (run_B query args) w =
     (fst (query (objects w) (pack_B.query_engine (self w)) args (services w)),
      w\<lparr>services := snd (query (objects w) (pack_B.query_engine (self w)) args (services w))\<rparr>)"
  by (simp add: run_B_def split: prod.splits)

lemma invoke_A_frame:
  "\<exists>s'. snd (run_state (invoke_A retrieve query c) w) = w\<lparr>services := s'\<rparr>"
proof (cases c)
  case (Retrieve_A q)
  then show ?thesis by (simp add: run_retrieve_A) blast
next
  case (Run_A args)
  then show ?thesis by (simp add: run_run_A) blast
next
  case Get_modules_A
  have "w = w\<lparr>services := services w\<rparr>" by simp
  then have "\<exists>s'. w = w\<lparr>services := s'\<rparr>" by (rule exI)
  with Get_modules_A show ?thesis by (simp add: run_get_modules_A)
qed

lemma invoke_B_frame:
  "\<exists>s'. snd (run_state (invoke_B query c) w) = w\<lparr>services := s'\<rparr>"
proof (cases c)
  case (Run_B args)
  then show ?thesis by (simp add: run_run_B) blast
next
  case Get_modules_B
  have "w = w\<lparr>services := services w\<rparr>" by simp
  then have "\<exists>s'. w = w\<lparr>services := s'\<rparr>" by (rule exI)
  with Get_modules_B show ?thesis by (simp add: run_get_modules_B)
qed

lemma invoke_all_frame:
  assumes "\<And>c w. \<exists>s'. snd (run_state (invoke c) w) = w\<lparr>services := s'\<rparr>"
  shows "snd (run_state (invoke_all invoke cs) w) =
           w\<lparr>services := services (snd (run_state (invoke_all invoke cs) w))\<rparr>"
proof (induction cs arbitrary: w)
  case Nil
  show ?case by simp
next
  case (Cons c cs)
  from assms obtain s' where s': "snd (run_state (invoke c) w) = w\<lparr>services := s'\<rparr>" by blast
  let ?w' = "w\<lparr>services := s'\<rparr>"
  have "snd (run_state (invoke_all invoke (c # cs)) w) = snd (run_state (invoke_all invoke cs) ?w')"
    using s' by (simp add: case_prod_beta)
  moreover have "snd (run_state (invoke_all invoke cs) ?w') =
      ?w'\<lparr>services := services (snd (run_state (invoke_all invoke cs) ?w'))\<rparr>"
    by (rule Cons.IH)
  ultimately show ?case by simp
qed

text \<open>
  C7. \<^verbatim>\<open>HybridFusionRetrieverPack.get_modules()\<close> returns the four entries
  \<^verbatim>\<open>vector_retriever\<close>, \<^verbatim>\<open>bm25_retriever\<close>, \<^verbatim>\<open>fusion_retriever\<close> and \<^verbatim>\<open>query_engine\<close>,
  each with the component of the pack of that name, and leaves the state as it was.
\<close>

theorem get_modules_A_four_entries:
  "run_state get_modules_A w =
     ([(''vector_retriever'', vector_retriever (self w)),
       (''bm25_retriever'', bm25_retriever (self w)),
       (''fusion_retriever'', fusion_retriever (self w)),
       (''query_engine'', pack_A.query_engine (self w))], w) \<and>
   map fst (fst (run_state get_modules_A w)) =
     [''vector_retriever'', ''bm25_retriever'', ''fusion_retriever'', ''query_engine''] \<and>
   snd (run_state get_modules_A w) = w"
  by (simp add: run_get_modules_A)

text \<open>
  C4, as the code has it. \<^verbatim>\<open>RecursiveRetrieverSmallToBigPack.get_modules()\<close> returns
  five entries, \<^verbatim>\<open>query_engine\<close>, \<^verbatim>\<open>recursive_retriever\<close>, \<^verbatim>\<open>llm\<close>, \<^verbatim>\<open>embed_model\<close> and
  \<^verbatim>\<open>service_context\<close>, each with the attribute of the pack of that name, and leaves the
  state as it was. A vector retriever and a lexical retriever are not among them: the pack
  has no lexical retriever, and its vector retriever is a local of the constructor.
\<close>

theorem get_modules_B_five_entries:
  "run_state get_modules_B w =
     ([(''query_engine'', pack_B.query_engine (self w)),
       (''recursive_retriever'', recursive_retriever (self w)),
       (''llm'', llm (self w)),
       (''embed_model'', embed_model (self w)),
       (''service_context'', service_context (self w))], w) \<and>
   map fst (fst (run_state get_modules_B w)) =
     [''query_engine'', ''recursive_retriever'', ''llm'', ''embed_model'', ''service_context''] \<and>
   snd (run_state get_modules_B w) = w"
  by (simp add: run_get_modules_B)

text \<open>
  C4, as stated, asks for a handle to a vector retriever and one to a lexical retriever
  among the modules. In a program that holds the pack with objects of the kinds that the
  constructor assigns, the five modules contain neither.
\<close>

theorem get_modules_B_counterexample:
  "length (fst (run_state get_modules_B sample_world_B)) = 5 \<and>
   map fst (fst (run_state get_modules_B sample_world_B)) =
     [''query_engine'', ''recursive_retriever'', ''llm'', ''embed_model'', ''service_context''] \<and>
   \<not> list_ex (handle_is is_vector_retriever (objects sample_world_B))
       (map snd (fst (run_state get_modules_B sample_world_B))) \<and>
   \<not> list_ex (handle_is is_lexical_retriever (objects sample_world_B))
       (map snd (fst (run_state get_modules_B sample_world_B)))"
  by (simp add: run_get_modules_B sample_world_B_def handle_is_def deref_def)

section \<open>Calls and the state of a pack\<close>

text \<open>
  C8. Whatever methods a client calls on a pack, and however the framework answers, the
  pack object and the objects made by its constructor stay as they were: only the state of
  the services moves. So a call made after other calls has the outcome that it has on the
  pack as constructed, in the state in which the earlier calls left the services.
\<close>

theorem calls_leave_pack_unchanged:
  "self (snd (run_state (invoke_all (invoke_A retrieve query) cs) w)) = self w \<and>
   objects (snd (run_state (invoke_all (invoke_A retrieve query) cs) w)) = objects w \<and>
   fst (run_state (invoke_A retrieve query c)
          (snd (run_state (invoke_all (invoke_A retrieve query) cs) w))) =
     fst (run_state (invoke_A retrieve query c)
          (w\<lparr>services := services (snd (run_state (invoke_all (invoke_A retrieve query) cs) w))\<rparr>)) \<and>
   self (snd (run_state (invoke_all (invoke_B query_B) cs_B) w_B)) = self w_B \<and>
   objects (snd (run_state (invoke_all (invoke_B query_B) cs_B) w_B)) = objects w_B \<and>
   fst (run_state (invoke_B query_B c_B)
          (snd (run_state (invoke_all (invoke_B query_B) cs_B) w_B))) =
     fst (run_state (invoke_B query_B c_B)
          (w_B\<lparr>services := services (snd (run_state (invoke_all (invoke_B query_B) cs_B) w_B))\<rparr>))"
proof -
  let ?a = "snd (run_state (invoke_all (invoke_A retrieve query) cs) w)"
  let ?b = "snd (run_state (invoke_all (invoke_B query_B) cs_B) w_B)"
  have a: "?a = w\<lparr>services := services ?a\<rparr>"
    by (rule invoke_all_frame) (rule invoke_A_frame)
  have b: "?b = w_B\<lparr>services := services ?b\<rparr>"
    by (rule invoke_all_frame) (rule invoke_B_frame)
  have a1: "self ?a = self w" by (subst a) simp
  have a2: "objects ?a = objects w" by (subst a) simp
  have a3: "fst (run_state (invoke_A retrieve query c) ?a) =
     fst (run_state (invoke_A retrieve query c) (w\<lparr>services := services ?a\<rparr>))"
    using a by simp
  have b1: "self ?b = self w_B" by (subst b) simp
  have b2: "objects ?b = objects w_B" by (subst b) simp
  have b3: "fst (run_state (invoke_B query_B c_B) ?b) =
     fst (run_state (invoke_B query_B c_B) (w_B\<lparr>services := services ?b\<rparr>))"
    using b by simp
  from a1 a2 a3 b1 b2 b3 show ?thesis by (intro conjI)
qed

section \<open>The wiring of the hybrid fusion pack\<close>

lemma sample_A_constructed:
  "init_A framework_check sample_docs 256 ''reciprocal_rerank'' 2 2 k 4 [] =
     (Inr sample_pack_A, sample_objects_A k)"
  by (simp add: init_A_framework sample_pack_A_def sample_objects_A_def sample_docs_def)

text \<open>
  C6. Whenever the constructor of \<^verbatim>\<open>HybridFusionRetrieverPack\<close> goes through, it has
  created one vector index, one vector retriever on it, one BM25 retriever on the docstore
  of that same index, and one fusion retriever over these two retrievers, with the given
  \<^verbatim>\<open>fusion_similarity_top_k\<close>, \<^verbatim>\<open>num_queries\<close> and \<^verbatim>\<open>mode\<close>; the query engine is built on
  the fusion retriever.
\<close>

theorem hybrid_fusion_wiring:
  "init_A check nodes chunk_size mode vector_similarity_top_k bm25_similarity_top_k
       fusion_similarity_top_k num_queries h = (Inr p, h') \<Longrightarrow>
   (let created = new_objects h h';
        index = length h + 1
    in filter is_vector_index created = [VectorStoreIndex nodes (length h)] \<and>
       filter is_vector_retriever created = [VectorIndexRetriever index vector_similarity_top_k] \<and>
       filter is_lexical_retriever created =
          [BM25Retriever (DocstoreOf index) bm25_similarity_top_k] \<and>
       filter is_fusion_retriever created =
          [QueryFusionRetriever [vector_retriever p, bm25_retriever p]
             fusion_similarity_top_k num_queries mode True True] \<and>
       deref h' index = Some (VectorStoreIndex nodes (length h)) \<and>
       deref h' (vector_retriever p) =
          Some (VectorIndexRetriever index vector_similarity_top_k) \<and>
       deref h' (bm25_retriever p) =
          Some (BM25Retriever (DocstoreOf index) bm25_similarity_top_k) \<and>
       deref h' (fusion_retriever p) =
          Some (QueryFusionRetriever [vector_retriever p, bm25_retriever p]
             fusion_similarity_top_k num_queries mode True True) \<and>
       deref h' (pack_A.query_engine p) =
          Some (RetrieverQueryEngine (fusion_retriever p) None))"
proof -
  assume c: "init_A check nodes chunk_size mode vector_similarity_top_k bm25_similarity_top_k
       fusion_similarity_top_k num_queries h = (Inr p, h')"
  show ?thesis
    by (simp add: init_A_completes [OF c] new_objects_append deref_def nth_append Let_def)
qed

theorem hybrid_fusion_wiring_witness:
  "init_A framework_check sample_docs 256 ''reciprocal_rerank'' 2 2 2 4 [] =
     (Inr sample_pack_A, sample_objects_A 2) \<and>
   filter is_vector_index (sample_objects_A 2) = [VectorStoreIndex sample_docs 0] \<and>
   filter is_lexical_retriever (sample_objects_A 2) = [BM25Retriever (DocstoreOf 1) 2] \<and>
   deref (sample_objects_A 2) (vector_retriever sample_pack_A) = Some (VectorIndexRetriever 1 2) \<and>
   deref (sample_objects_A 2) (bm25_retriever sample_pack_A) =
     Some (BM25Retriever (DocstoreOf 1) 2) \<and>
   deref (sample_objects_A 2) (fusion_retriever sample_pack_A) =
     Some (QueryFusionRetriever [2, 3] 2 4 ''reciprocal_rerank'' True True)"
proof -
  note t = hybrid_fusion_wiring [OF sample_A_constructed [of 2], unfolded Let_def]
  have v: "vector_retriever sample_pack_A = 2" "bm25_retriever sample_pack_A = 3"
    by (simp_all add: sample_pack_A_def)
  from t sample_A_constructed [of 2] show ?thesis
    by (simp add: new_objects_def v)
qed

section \<open>How many nodes come back\<close>




end
